theory Spec2Isabelle
  imports Complex_Main "HOL-Library.Word"
begin

section \<open>The Core Audio HAL driver bridge (hal_driver_bridge.c)\<close>

text \<open>
  A shallow embedding of the driver bridge. Every entry point of the operation table
  keeps its name and its parameters, in the order of the C signature, also the
  parameters the body never reads. An out-parameter becomes a component of the result;
  where the C code leaves an out-parameter alone, the model returns the content it had
  before the call. The driver instance \<open>*inDriver\<close> is passed as a record and
  returned as the last component of the result, so that what a call does to it can be
  stated. Calls to \<open>fprintf\<close> are left out.
\<close>

subsection \<open>Machine types and constants of the host headers\<close>

type_synonym UInt32 = "32 word"
type_synonym UInt64 = "64 word"
type_synonym size_t = "64 word"
type_synonym ULONG = "32 word"
type_synonym OSStatus = "32 word"
type_synonym AudioObjectID = "32 word"
type_synonym pid_t = "32 word"
type_synonym pointer = "64 word"
type_synonym CFUUID = "128 word"
type_synonym Float64 = real

text \<open>
  Four-character codes and status codes of CoreAudio/AudioHardwareBase.h; the
  stream-configuration selector is also defined in the source file itself (line 17).
\<close>

definition kAudioHardwareNoError :: OSStatus where
  "kAudioHardwareNoError = 0"

definition kAudioHardwareUnsupportedOperationError :: OSStatus where
  "kAudioHardwareUnsupportedOperationError = 0x756E6F70" \<comment> \<open>'unop'\<close>

definition kAudioHardwareBadObjectError :: OSStatus where
  "kAudioHardwareBadObjectError = 0x216F626A" \<comment> \<open>'!obj'\<close>

definition kAudioObjectPropertyName :: UInt32 where
  "kAudioObjectPropertyName = 0x6C6E616D" \<comment> \<open>'lnam'\<close>

definition kAudioObjectPropertyManufacturer :: UInt32 where
  "kAudioObjectPropertyManufacturer = 0x6C6D616B" \<comment> \<open>'lmak'\<close>

definition kAudioDevicePropertyDeviceUID :: UInt32 where
  "kAudioDevicePropertyDeviceUID = 0x75696420" \<comment> \<open>'uid '\<close>

definition kAudioDevicePropertyStreams :: UInt32 where
  "kAudioDevicePropertyStreams = 0x73746D23" \<comment> \<open>'stm#'\<close>

definition kAudioDevicePropertyStreamConfiguration :: UInt32 where
  "kAudioDevicePropertyStreamConfiguration = 0x736C6179" \<comment> \<open>'slay'\<close>

definition kAudioDevicePropertyNominalSampleRate :: UInt32 where
  "kAudioDevicePropertyNominalSampleRate = 0x6E737274" \<comment> \<open>'nsrt'\<close>

definition kAudioDevicePropertyAvailableNominalSampleRates :: UInt32 where
  "kAudioDevicePropertyAvailableNominalSampleRates = 0x6E737223" \<comment> \<open>'nsr#'\<close>

definition kAudioObjectPropertyScopeGlobal :: UInt32 where
  "kAudioObjectPropertyScopeGlobal = 0x676C6F62" \<comment> \<open>'glob'\<close>

definition kAudioObjectPropertyScopeInput :: UInt32 where
  "kAudioObjectPropertyScopeInput = 0x696E7074" \<comment> \<open>'inpt'\<close>

definition kAudioObjectPropertyScopeOutput :: UInt32 where
  "kAudioObjectPropertyScopeOutput = 0x6F757470" \<comment> \<open>'outp'\<close>

text \<open>
  Object sizes on the 64-bit (LP64) platform the host runs on. An \<open>AudioBuffer\<close> is
  two \<open>UInt32\<close> and a pointer; an \<open>AudioBufferList\<close> is a \<open>UInt32\<close>, four bytes
  of padding and one \<open>AudioBuffer\<close>; an \<open>AudioValueRange\<close> is two \<open>Float64\<close>.
\<close>

definition sizeof_CFStringRef :: size_t where
  "sizeof_CFStringRef = 8"

definition sizeof_AudioBuffer :: size_t where
  "sizeof_AudioBuffer = 16"

definition sizeof_AudioBufferList :: size_t where
  "sizeof_AudioBufferList = 24"

definition sizeof_Float64 :: size_t where
  "sizeof_Float64 = 8"

definition sizeof_AudioValueRange :: size_t where
  "sizeof_AudioValueRange = 16"

definition sizeof_float :: size_t where
  "sizeof_float = 4"

definition kAudioHALDriverFactoryUUID :: CFUUID where
  "kAudioHALDriverFactoryUUID = 1" \<comment> \<open>fifteen zero bytes, then 0x01 (line 21)\<close>

subsection \<open>The driver instance and the process-wide state\<close>

datatype interface_table = gAudioServerPlugInDriverInterface

record AudioHALDriver =
  interface :: interface_table
  factoryID :: CFUUID
  refCount :: UInt32
  host :: pointer
  deviceObjectID :: AudioObjectID
  inputChannels :: UInt32
  outputChannels :: UInt32

record AudioObjectPropertyAddress =
  mSelector :: UInt32
  mScope :: UInt32
  mElement :: UInt32

text \<open>
  The only instance ever allocated is the one \<open>gDriver\<close> points to, so the global
  pointer and the allocation are one field: \<open>None\<close> is the null pointer (nothing
  allocated, or freed), \<open>Some d\<close> a live instance with content \<open>d\<close>. The calls into
  the plug-in registry and to \<open>free\<close> are recorded, in order, in \<open>effects\<close>.
\<close>

datatype effect =
    AddInstanceForFactory CFUUID
  | RemoveInstanceForFactory CFUUID
  | Free

record process_state =
  gDriver :: "AudioHALDriver option"
  effects :: "effect list"

text \<open>A call through a driver pointer whose instance is gone has no defined result.\<close>

datatype fault = DanglingDriver

datatype driver_ref = NULL | DriverRef

subsection \<open>Factory and reference counting (lines 89-155)\<close>

text \<open>The field assignments of the factory, lines 96-103.\<close>

definition new_driver :: AudioHALDriver where
  "new_driver =
     \<lparr>interface = gAudioServerPlugInDriverInterface,
      factoryID = kAudioHALDriverFactoryUUID,
      refCount = 1,
      host = 0,
      deviceObjectID = 0,
      inputChannels = 16,
      outputChannels = 16\<rparr>"

definition AddRef :: "process_state \<Rightarrow> fault + (ULONG \<times> process_state)" where
  "AddRef s =
     (case gDriver s of
        None \<Rightarrow> Inl DanglingDriver
      | Some driver \<Rightarrow>
          let driver' = driver\<lparr>refCount := refCount driver + 1\<rparr>
          in Inr (refCount driver', s\<lparr>gDriver := Some driver'\<rparr>))"

definition Release :: "process_state \<Rightarrow> fault + (ULONG \<times> process_state)" where
  "Release s =
     (case gDriver s of
        None \<Rightarrow> Inl DanglingDriver
      | Some driver \<Rightarrow>
          let driver' = driver\<lparr>refCount := refCount driver - 1\<rparr>
          in if refCount driver' = 0
             then Inr (0, s\<lparr>gDriver := None,
                            effects := effects s @ [RemoveInstanceForFactory (factoryID driver'), Free]\<rparr>)
             else Inr (refCount driver', s\<lparr>gDriver := Some driver'\<rparr>))"

text \<open>
  \<open>typeMatches\<close> is the result of \<open>CFEqual(typeID, kAudioServerPlugInTypeUUID)\<close>,
  \<open>mallocOK\<close> says whether \<open>malloc\<close> returns a block.
\<close>

definition AudioHALDriverFactory :: "bool \<Rightarrow> bool \<Rightarrow> process_state \<Rightarrow> driver_ref \<times> process_state" where
  "AudioHALDriverFactory typeMatches mallocOK s =
     (if typeMatches then
        (case gDriver s of
           None \<Rightarrow>
             if mallocOK
             then (DriverRef, s\<lparr>gDriver := Some new_driver,
                                effects := effects s @ [AddInstanceForFactory kAudioHALDriverFactoryUUID]\<rparr>)
             else (NULL, s)
         | Some driver \<Rightarrow>
             (case AddRef s of
                Inr (n, s') \<Rightarrow> (DriverRef, s')
              | Inl e \<Rightarrow> (DriverRef, s)))
      else (NULL, s))"

text \<open>Calling an entry point \<open>n\<close> times in a row; the run stops at the first fault.\<close>

fun repeat_call :: "nat \<Rightarrow> (process_state \<Rightarrow> fault + (ULONG \<times> process_state)) \<Rightarrow> process_state
    \<Rightarrow> fault + process_state" where
  "repeat_call 0 f s = Inr s"
| "repeat_call (Suc n) f s =
     (case f s of Inl e \<Rightarrow> Inl e | Inr (r, s') \<Rightarrow> repeat_call n f s')"

definition initial_state :: process_state where
  "initial_state = \<lparr>gDriver = None, effects = []\<rparr>"

subsection \<open>Driver operations (lines 159-202)\<close>

definition Initialize :: "AudioHALDriver \<Rightarrow> pointer \<Rightarrow> OSStatus \<times> AudioHALDriver" where
  "Initialize driver inHost =
     (kAudioHardwareNoError, driver\<lparr>host := inHost, deviceObjectID := 1\<rparr>)"

definition DestroyDevice :: "AudioHALDriver \<Rightarrow> AudioObjectID \<Rightarrow> OSStatus \<times> AudioHALDriver" where
  "DestroyDevice driver inDeviceObjectID = (kAudioHardwareNoError, driver)"

definition AddDeviceClient :: "AudioHALDriver \<Rightarrow> AudioObjectID \<Rightarrow> pointer
    \<Rightarrow> OSStatus \<times> AudioHALDriver" where
  "AddDeviceClient driver inDeviceObjectID inClientInfo = (kAudioHardwareNoError, driver)"

definition RemoveDeviceClient :: "AudioHALDriver \<Rightarrow> AudioObjectID \<Rightarrow> pointer
    \<Rightarrow> OSStatus \<times> AudioHALDriver" where
  "RemoveDeviceClient driver inDeviceObjectID inClientInfo = (kAudioHardwareNoError, driver)"

definition PerformDeviceConfigurationChange :: "AudioHALDriver \<Rightarrow> AudioObjectID \<Rightarrow> UInt64 \<Rightarrow> pointer
    \<Rightarrow> OSStatus \<times> AudioHALDriver" where
  "PerformDeviceConfigurationChange driver inDeviceObjectID inChangeAction inChangeInfo =
     (kAudioHardwareNoError, driver)"

definition AbortDeviceConfigurationChange :: "AudioHALDriver \<Rightarrow> AudioObjectID \<Rightarrow> UInt64 \<Rightarrow> pointer
    \<Rightarrow> OSStatus \<times> AudioHALDriver" where
  "AbortDeviceConfigurationChange driver inDeviceObjectID inChangeAction inChangeInfo =
     (kAudioHardwareNoError, driver)"

subsection \<open>Property operations (lines 206-326)\<close>

definition HasProperty :: "AudioHALDriver \<Rightarrow> AudioObjectID \<Rightarrow> pid_t \<Rightarrow> AudioObjectPropertyAddress
    \<Rightarrow> bool \<times> AudioHALDriver" where
  "HasProperty driver inObjectID inClientProcessID inAddress =
     (if mSelector inAddress = kAudioObjectPropertyName
        \<or> mSelector inAddress = kAudioObjectPropertyManufacturer
        \<or> mSelector inAddress = kAudioDevicePropertyDeviceUID
        \<or> mSelector inAddress = kAudioDevicePropertyStreams
        \<or> mSelector inAddress = kAudioDevicePropertyStreamConfiguration
        \<or> mSelector inAddress = kAudioDevicePropertyNominalSampleRate
        \<or> mSelector inAddress = kAudioDevicePropertyAvailableNominalSampleRates
      then (True, driver)
      else (False, driver))"

text \<open>The second component is \<open>*outIsSettable\<close> after the call.\<close>

definition IsPropertySettable :: "AudioHALDriver \<Rightarrow> AudioObjectID \<Rightarrow> pid_t \<Rightarrow> AudioObjectPropertyAddress
    \<Rightarrow> OSStatus \<times> bool \<times> AudioHALDriver" where
  "IsPropertySettable driver inObjectID inClientProcessID inAddress =
     (kAudioHardwareNoError, False, driver)"

text \<open>
  The second component is \<open>*outDataSize\<close> after the call; every branch of the switch
  assigns it. The right-hand sides have type \<open>size_t\<close> and are converted to
  \<open>UInt32\<close> by the assignment.
\<close>

definition GetPropertyDataSize :: "AudioHALDriver \<Rightarrow> AudioObjectID \<Rightarrow> pid_t \<Rightarrow> AudioObjectPropertyAddress
    \<Rightarrow> UInt32 \<Rightarrow> pointer \<Rightarrow> OSStatus \<times> UInt32 \<times> AudioHALDriver" where
  "GetPropertyDataSize driver inObjectID inClientProcessID inAddress inQualifierDataSize inQualifierData =
     (if mSelector inAddress = kAudioObjectPropertyName
        \<or> mSelector inAddress = kAudioObjectPropertyManufacturer
        \<or> mSelector inAddress = kAudioDevicePropertyDeviceUID
      then (kAudioHardwareNoError, ucast sizeof_CFStringRef, driver)
      else if mSelector inAddress = kAudioDevicePropertyStreamConfiguration
      then (kAudioHardwareNoError, ucast (sizeof_AudioBufferList + 15 * sizeof_AudioBuffer), driver)
      else if mSelector inAddress = kAudioDevicePropertyNominalSampleRate
      then (kAudioHardwareNoError, ucast sizeof_Float64, driver)
      else if mSelector inAddress = kAudioDevicePropertyAvailableNominalSampleRates
      then (kAudioHardwareNoError, ucast (sizeof_AudioValueRange * 3), driver)
      else if mSelector inAddress = kAudioDevicePropertyStreams
      then (kAudioHardwareNoError, 0, driver)
      else (kAudioHardwareNoError, 0, driver))"

text \<open>
  What \<open>GetPropertyData\<close> stores through \<open>outData\<close> is recorded as the list of its
  stores, in program order: the byte offset from \<open>outData\<close> and the value stored.
  Offsets follow the layout of the structure the code casts \<open>outData\<close> to:
  \<open>ranges[i]\<close> starts at \<open>16 * i\<close> with \<open>mMaximum\<close> eight bytes in;
  \<open>mBuffers[i]\<close> starts at \<open>8 + 16 * i\<close> with \<open>mNumberChannels\<close>,
  \<open>mDataByteSize\<close> and \<open>mData\<close> at 0, 4 and 8 bytes in.
\<close>

datatype stored_value =
    StoreCFString string
  | StoreFloat64 Float64
  | StoreUInt32 UInt32
  | StorePointer pointer

type_synonym store = "nat \<times> stored_value"

text \<open>
  The loop of lines 288-292: \<open>fill_mBuffers i r\<close> runs the iterations
  \<open>i, i + 1, ..., i + r - 1\<close>; the loop is \<open>fill_mBuffers 0 numChannels\<close>.
\<close>

fun fill_mBuffers :: "nat \<Rightarrow> nat \<Rightarrow> store list" where
  "fill_mBuffers i 0 = []"
| "fill_mBuffers i (Suc r) =
     [(8 + 16 * i, StoreUInt32 1), (8 + 16 * i + 4, StoreUInt32 0), (8 + 16 * i + 8, StorePointer 0)]
     @ fill_mBuffers (Suc i) r"

text \<open>Lines 278-285: the channel count of the scope of the address.\<close>

definition numChannels_of :: "AudioHALDriver \<Rightarrow> AudioObjectPropertyAddress \<Rightarrow> UInt32" where
  "numChannels_of driver inAddress =
     (if mScope inAddress = kAudioObjectPropertyScopeInput then inputChannels driver
      else if mScope inAddress = kAudioObjectPropertyScopeOutput then outputChannels driver
      else 0)"

record property_data =
  status :: OSStatus
  outDataSize :: UInt32
  outData :: "store list"

text \<open>
  \<open>priorDataSize\<close> is the content of \<open>*outDataSize\<close> before the call. In the size of
  the stream configuration \<open>numChannels - 1\<close> is computed in \<open>UInt32\<close>, the product
  and the sum in \<open>size_t\<close>, and the assignment converts to \<open>UInt32\<close>.
\<close>

definition GetPropertyData :: "AudioHALDriver \<Rightarrow> AudioObjectID \<Rightarrow> pid_t \<Rightarrow> AudioObjectPropertyAddress
    \<Rightarrow> UInt32 \<Rightarrow> pointer \<Rightarrow> UInt32 \<Rightarrow> UInt32 \<Rightarrow> property_data \<times> AudioHALDriver" where
  "GetPropertyData driver inObjectID inClientProcessID inAddress inQualifierDataSize inQualifierData
       inDataSize priorDataSize =
     (let untouched = \<lparr>status = kAudioHardwareNoError, outDataSize = priorDataSize, outData = []\<rparr>
      in
      if mSelector inAddress = kAudioObjectPropertyName then
        (if ucast inDataSize \<ge> sizeof_CFStringRef
         then (\<lparr>status = kAudioHardwareNoError, outDataSize = ucast sizeof_CFStringRef,
                 outData = [(0, StoreCFString ''SotF'')]\<rparr>, driver)
         else (untouched, driver))
      else if mSelector inAddress = kAudioObjectPropertyManufacturer then
        (if ucast inDataSize \<ge> sizeof_CFStringRef
         then (\<lparr>status = kAudioHardwareNoError, outDataSize = ucast sizeof_CFStringRef,
                 outData = [(0, StoreCFString ''Pierre F. Aubert'')]\<rparr>, driver)
         else (untouched, driver))
      else if mSelector inAddress = kAudioDevicePropertyDeviceUID then
        (if ucast inDataSize \<ge> sizeof_CFStringRef
         then (\<lparr>status = kAudioHardwareNoError, outDataSize = ucast sizeof_CFStringRef,
                 outData = [(0, StoreCFString ''SotF-001'')]\<rparr>, driver)
         else (untouched, driver))
      else if mSelector inAddress = kAudioDevicePropertyStreamConfiguration then
        (if ucast inDataSize \<ge> sizeof_AudioBufferList
         then
           (let numChannels = numChannels_of driver inAddress
            in (\<lparr>status = kAudioHardwareNoError,
                  outDataSize = ucast (sizeof_AudioBufferList + ucast (numChannels - 1) * sizeof_AudioBuffer),
                  outData = (0, StoreUInt32 numChannels) # fill_mBuffers 0 (unat numChannels)\<rparr>, driver))
         else (untouched, driver))
      else if mSelector inAddress = kAudioDevicePropertyNominalSampleRate then
        (if ucast inDataSize \<ge> sizeof_Float64
         then (\<lparr>status = kAudioHardwareNoError, outDataSize = ucast sizeof_Float64,
                 outData = [(0, StoreFloat64 44100)]\<rparr>, driver)
         else (untouched, driver))
      else if mSelector inAddress = kAudioDevicePropertyAvailableNominalSampleRates then
        (if ucast inDataSize \<ge> sizeof_AudioValueRange * 3
         then (\<lparr>status = kAudioHardwareNoError, outDataSize = ucast (sizeof_AudioValueRange * 3),
                 outData = [(0, StoreFloat64 44100), (8, StoreFloat64 44100),
                            (16, StoreFloat64 48000), (24, StoreFloat64 48000),
                            (32, StoreFloat64 96000), (40, StoreFloat64 96000)]\<rparr>, driver)
         else (untouched, driver))
      else (\<lparr>status = kAudioHardwareNoError, outDataSize = 0, outData = []\<rparr>, driver))"

definition SetPropertyData :: "AudioHALDriver \<Rightarrow> AudioObjectID \<Rightarrow> pid_t \<Rightarrow> AudioObjectPropertyAddress
    \<Rightarrow> UInt32 \<Rightarrow> pointer \<Rightarrow> UInt32 \<Rightarrow> pointer \<Rightarrow> OSStatus \<times> AudioHALDriver" where
  "SetPropertyData driver inObjectID inClientProcessID inAddress inQualifierDataSize inQualifierData
       inDataSize inData =
     (kAudioHardwareUnsupportedOperationError, driver)"

subsection \<open>IO operations (lines 330-376)\<close>

definition StartIO :: "AudioHALDriver \<Rightarrow> AudioObjectID \<Rightarrow> UInt32 \<Rightarrow> OSStatus \<times> AudioHALDriver" where
  "StartIO driver inDeviceObjectID inClientID = (kAudioHardwareNoError, driver)"

definition StopIO :: "AudioHALDriver \<Rightarrow> AudioObjectID \<Rightarrow> UInt32 \<Rightarrow> OSStatus \<times> AudioHALDriver" where
  "StopIO driver inDeviceObjectID inClientID = (kAudioHardwareNoError, driver)"

text \<open>The result holds \<open>*outSampleTime\<close>, \<open>*outHostTime\<close> and \<open>*outSeed\<close> after the call.\<close>

definition GetZeroTimeStamp :: "AudioHALDriver \<Rightarrow> AudioObjectID \<Rightarrow> UInt32
    \<Rightarrow> OSStatus \<times> (Float64 \<times> UInt64 \<times> UInt64) \<times> AudioHALDriver" where
  "GetZeroTimeStamp driver inDeviceObjectID inClientID = (kAudioHardwareNoError, (0, 0, 0), driver)"

text \<open>The result holds \<open>*outWillDo\<close> and \<open>*outWillDoInPlace\<close> after the call.\<close>

definition WillDoIOOperation :: "AudioHALDriver \<Rightarrow> AudioObjectID \<Rightarrow> UInt32 \<Rightarrow> UInt32
    \<Rightarrow> OSStatus \<times> (bool \<times> bool) \<times> AudioHALDriver" where
  "WillDoIOOperation driver inDeviceObjectID inClientID inOperationID =
     (kAudioHardwareNoError, (False, False), driver)"

definition BeginIOOperation :: "AudioHALDriver \<Rightarrow> AudioObjectID \<Rightarrow> UInt32 \<Rightarrow> UInt32 \<Rightarrow> UInt32 \<Rightarrow> pointer
    \<Rightarrow> OSStatus \<times> AudioHALDriver" where
  "BeginIOOperation driver inDeviceObjectID inClientID inOperationID inIOBufferFrameSize inIOCycleInfo =
     (kAudioHardwareNoError, driver)"

definition EndIOOperation :: "AudioHALDriver \<Rightarrow> AudioObjectID \<Rightarrow> UInt32 \<Rightarrow> UInt32 \<Rightarrow> UInt32 \<Rightarrow> pointer
    \<Rightarrow> OSStatus \<times> AudioHALDriver" where
  "EndIOOperation driver inDeviceObjectID inClientID inOperationID inIOBufferFrameSize inIOCycleInfo =
     (kAudioHardwareNoError, driver)"

text \<open>
  The host's memory is a store from 64-bit addresses to bytes; the null pointer is
  address 0. The driver instance is kept apart from it: the buffers of an IO cycle are
  the host's and do not overlap the instance. \<open>memset\<close> stores the byte at \<open>n\<close>
  consecutive addresses, counting upwards from the start address.
\<close>

type_synonym memory = "pointer \<Rightarrow> 8 word"

fun memset :: "memory \<Rightarrow> pointer \<Rightarrow> 8 word \<Rightarrow> nat \<Rightarrow> memory" where
  "memset mem p c 0 = mem"
| "memset mem p c (Suc n) = memset (mem(p := c)) (p + 1) c n"

text \<open>
  \<open>bufferSize\<close> is computed in \<open>size_t\<close>: the frame count and the channel count are
  widened from \<open>UInt32\<close>, and the product wraps around at \<open>2 ^ 64\<close>.
\<close>

definition DoIOOperation :: "AudioHALDriver \<Rightarrow> AudioObjectID \<Rightarrow> AudioObjectID \<Rightarrow> UInt32 \<Rightarrow> UInt32 \<Rightarrow> UInt32
    \<Rightarrow> pointer \<Rightarrow> pointer \<Rightarrow> pointer \<Rightarrow> memory \<Rightarrow> OSStatus \<times> memory \<times> AudioHALDriver" where
  "DoIOOperation driver inDeviceObjectID inStreamObjectID inClientID inOperationID inIOBufferFrameSize
       inIOCycleInfo ioMainBuffer ioSecondaryBuffer mem =
     (if ioMainBuffer \<noteq> 0 then
        (let bufferSize = ucast inIOBufferFrameSize * sizeof_float * ucast (outputChannels driver) :: size_t
         in (kAudioHardwareNoError, memset mem ioMainBuffer 0 (unat bufferSize), driver))
      else (kAudioHardwareNoError, mem, driver))"

subsection \<open>Notions the properties are stated with\<close>

text \<open>The address \<open>a\<close> lies in the \<open>n\<close> bytes that start at \<open>p\<close>.\<close>

definition in_extent :: "pointer \<Rightarrow> nat \<Rightarrow> pointer \<Rightarrow> bool" where
  "in_extent p n a = (unat (a - p) < n)"

text \<open>
  The instance right after the factory has created it and \<open>Initialize\<close> has bound a
  host, and the process state in which that instance is live.
\<close>

definition initialized_driver :: "pointer \<Rightarrow> AudioHALDriver" where
  "initialized_driver inHost = snd (Initialize new_driver inHost)"

definition created_state :: process_state where
  "created_state = snd (AudioHALDriverFactory True True initial_state)"

section \<open>Auxiliary facts\<close>

subsection \<open>The bytes \<open>memset\<close> stores\<close>

lemma memset_apply:
  "memset mem p c n a = (if in_extent p n a then c else mem a)"
proof (induction n arbitrary: mem p)
  case 0
  show ?case by (simp add: in_extent_def)
next
  case (Suc n)
  show ?case
  proof (cases "a = p")
    case True
    have "memset (mem(p := c)) (p + 1) c n a = (if in_extent (p + 1) n a then c else (mem(p := c)) a)"
      by (rule Suc.IH)
    then show ?thesis by (simp add: True in_extent_def)
  next
    case False
    then have nz: "a - p \<noteq> 0" by simp
    have "a - (p + 1) = a - p - 1" by simp
    then have "unat (a - (p + 1)) = unat (a - p - 1)" by (rule arg_cong)
    also have "\<dots> = unat (a - p) - 1" by (rule unat_minus_one [OF nz])
    finally have pred: "unat (a - (p + 1)) = unat (a - p) - 1" .
    have pos: "0 < unat (a - p)"
      using nz by (simp add: unat_gt_0)
    have "in_extent (p + 1) n a = in_extent p (Suc n) a"
      unfolding in_extent_def pred using pos by linarith
    then show ?thesis using False by (simp add: Suc.IH)
  qed
qed

subsection \<open>Runs of \<open>AddRef\<close> and \<open>Release\<close>\<close>

lemma repeat_AddRef:
  "gDriver s = Some d \<Longrightarrow>
   repeat_call n AddRef s = Inr (s\<lparr>gDriver := Some (d\<lparr>refCount := refCount d + of_nat n\<rparr>)\<rparr>)"
proof (induction n arbitrary: s d)
  case 0
  then show ?case by simp
next
  case (Suc n)
  let ?d = "d\<lparr>refCount := refCount d + 1\<rparr>"
  let ?s = "s\<lparr>gDriver := Some ?d\<rparr>"
  have step: "AddRef s = Inr (refCount ?d, ?s)"
    using Suc.prems by (simp add: AddRef_def Let_def)
  have "gDriver ?s = Some ?d" by simp
  from Suc.IH [OF this] show ?case
    by (simp add: step add.assoc add.commute)
qed

lemma repeat_Release_alive:
  "gDriver s = Some d \<Longrightarrow> refCount d = of_nat (Suc n) \<Longrightarrow> n < 2 ^ 32 \<Longrightarrow> k \<le> n \<Longrightarrow>
   repeat_call k Release s = Inr (s\<lparr>gDriver := Some (d\<lparr>refCount := of_nat (Suc n - k)\<rparr>)\<rparr>)"
proof (induction k arbitrary: s d n)
  case 0
  then show ?case by simp
next
  case (Suc k)
  then obtain m where n: "n = Suc m" by (cases n) auto
  let ?d = "d\<lparr>refCount := of_nat (Suc m)\<rparr>"
  let ?s = "s\<lparr>gDriver := Some ?d\<rparr>"
  have m: "m < 2 ^ 32" "Suc m < 2 ^ 32" "k \<le> m" using Suc.prems n by auto
  have nz: "(of_nat (Suc m) :: 32 word) \<noteq> 0"
    by (rule of_nat_neq_0) (use m in simp_all)
  have dec: "refCount d - 1 = of_nat (Suc m)"
    using Suc.prems(2) n by simp
  have step: "Release s = Inr (of_nat (Suc m), ?s)"
    using Suc.prems(1) nz dec by (simp add: Release_def Let_def)
  have "repeat_call k Release ?s = Inr (?s\<lparr>gDriver := Some (?d\<lparr>refCount := of_nat (Suc m - k)\<rparr>)\<rparr>)"
    by (rule Suc.IH) (use m in simp_all)
  then show ?case by (simp add: step n)
qed

lemma Release_last:
  "gDriver s = Some d \<Longrightarrow> refCount d = 1 \<Longrightarrow>
   Release s = Inr (0, s\<lparr>gDriver := None,
       effects := effects s @ [RemoveInstanceForFactory (factoryID d), Free]\<rparr>)"
  by (simp add: Release_def Let_def)

lemma repeat_call_last:
  "repeat_call (Suc n) f s =
     (case repeat_call n f s of
        Inl e \<Rightarrow> Inl e
      | Inr s' \<Rightarrow> (case f s' of Inl e \<Rightarrow> Inl e | Inr (r, s'') \<Rightarrow> Inr s''))"
proof (induction n arbitrary: s)
  case 0
  show ?case by (simp split: sum.splits)
next
  case (Suc n)
  show ?case
  proof (cases "f s")
    case (Inl e)
    then show ?thesis by simp
  next
    case (Inr rs)
    obtain r s' where rs: "rs = (r, s')" by (cases rs)
    have "repeat_call (Suc (Suc n)) f s = repeat_call (Suc n) f s'"
      using Inr rs by simp
    also have "\<dots> = (case repeat_call n f s' of
        Inl e \<Rightarrow> Inl e
      | Inr t \<Rightarrow> (case f t of Inl e \<Rightarrow> Inl e | Inr (r, t') \<Rightarrow> Inr t'))"
      by (rule Suc.IH)
    also have "repeat_call n f s' = repeat_call (Suc n) f s"
      using Inr rs by simp
    finally show ?thesis .
  qed
qed

lemma repeat_Release_all:
  assumes "gDriver s = Some d" "refCount d = of_nat (Suc n)" "n < 2 ^ 32"
  shows "repeat_call (Suc n) Release s =
     Inr (s\<lparr>gDriver := None, effects := effects s @ [RemoveInstanceForFactory (factoryID d), Free]\<rparr>)"
proof -
  let ?d = "d\<lparr>refCount := 1\<rparr>"
  let ?s = "s\<lparr>gDriver := Some ?d\<rparr>"
  have a: "repeat_call n Release s = Inr ?s"
    using repeat_Release_alive [OF assms, of n] by simp
  have b: "Release ?s = Inr (0, ?s\<lparr>gDriver := None,
       effects := effects ?s @ [RemoveInstanceForFactory (factoryID ?d), Free]\<rparr>)"
    by (rule Release_last) simp_all
  show ?thesis
    by (subst repeat_call_last) (simp add: a b)
qed

lemma Release_nonzero_alive:
  "Release s = Inr (r, s') \<Longrightarrow> r \<noteq> 0 \<Longrightarrow> gDriver s' \<noteq> None \<and> effects s' = effects s"
  by (auto simp: Release_def Let_def split: option.splits if_splits)

lemma created_state_eq:
  "created_state = \<lparr>gDriver = Some new_driver, effects = [AddInstanceForFactory kAudioHALDriverFactoryUUID]\<rparr>"
  by (simp add: created_state_def AudioHALDriverFactory_def initial_state_def)

subsection \<open>The instance after a property read\<close>

lemma GetPropertyData_driver:
  "snd (GetPropertyData driver oid pid addr qs qd n prior) = driver"
  by (simp add: GetPropertyData_def Let_def)

subsection \<open>Sizes and conversions\<close>

lemma unat_widen: "unat (ucast (w :: 32 word) :: 64 word) = unat w"
proof -
  have "unat w < 2 ^ 32" using unsigned_less [of w] by simp
  then have "unat w < 2 ^ 64" by simp
  then show ?thesis by (simp add: unsigned_ucast_eq take_bit_nat_eq_self)
qed

lemma unat_narrow: "unat (ucast (w :: 64 word) :: 32 word) = unat w mod 2 ^ 32"
  by (simp add: unsigned_ucast_eq take_bit_eq_mod)

lemma widen_minus_one: "(ucast (- 1 :: 32 word) :: 64 word) = 0xFFFFFFFF"
proof -
  have "(- 1 :: 32 word) = 0xFFFFFFFF" by simp
  moreover have "(ucast (0xFFFFFFFF :: 32 word) :: 64 word) = 0xFFFFFFFF" by simp
  ultimately show ?thesis by (simp only:)
qed

lemmas selector_defs =
  kAudioObjectPropertyName_def kAudioObjectPropertyManufacturer_def
  kAudioDevicePropertyDeviceUID_def kAudioDevicePropertyStreams_def
  kAudioDevicePropertyStreamConfiguration_def kAudioDevicePropertyNominalSampleRate_def
  kAudioDevicePropertyAvailableNominalSampleRates_def

lemmas scope_defs =
  kAudioObjectPropertyScopeGlobal_def kAudioObjectPropertyScopeInput_def
  kAudioObjectPropertyScopeOutput_def

lemmas sizeof_defs =
  sizeof_CFStringRef_def sizeof_AudioBuffer_def sizeof_AudioBufferList_def
  sizeof_Float64_def sizeof_AudioValueRange_def sizeof_float_def

lemma GetPropertyDataSize_status:
  "fst (GetPropertyDataSize driver oid pid addr qs qd) = kAudioHardwareNoError"
  by (simp add: GetPropertyDataSize_def)

lemma GetPropertyData_status:
  "status (fst (GetPropertyData driver oid pid addr qs qd n prior)) = kAudioHardwareNoError"
  by (simp add: GetPropertyData_def Let_def)

lemma GetPropertyDataSize_value:
  "fst (snd (GetPropertyDataSize driver oid pid addr qs qd)) =
     (if mSelector addr = kAudioObjectPropertyName
        \<or> mSelector addr = kAudioObjectPropertyManufacturer
        \<or> mSelector addr = kAudioDevicePropertyDeviceUID then 8
      else if mSelector addr = kAudioDevicePropertyStreamConfiguration then 264
      else if mSelector addr = kAudioDevicePropertyNominalSampleRate then 8
      else if mSelector addr = kAudioDevicePropertyAvailableNominalSampleRates then 48
      else 0)"
  by (simp add: GetPropertyDataSize_def sizeof_defs)

lemma stream_configuration_reported:
  assumes "mSelector addr = kAudioDevicePropertyStreamConfiguration"
    and "sizeof_AudioBufferList \<le> ucast n"
  shows "outDataSize (fst (GetPropertyData driver oid pid addr qs qd n prior)) =
     ucast (sizeof_AudioBufferList + ucast (numChannels_of driver addr - 1) * sizeof_AudioBuffer)"
  using assms by (simp add: GetPropertyData_def Let_def selector_defs)

lemma reported_size_unat:
  fixes k :: "32 word"
  assumes "unat k < 2 ^ 28"
  shows "unat (ucast (sizeof_AudioBufferList + ucast (k - 1) * sizeof_AudioBuffer) :: 32 word)
     = 8 + 16 * unat k"
proof (cases "k = 0")
  case True
  then show ?thesis by (simp add: sizeof_defs widen_minus_one)
next
  case False
  then have km1: "unat (k - 1) = unat k - 1" by (rule unat_minus_one)
  have pos: "0 < unat k" using False by (simp add: unat_gt_0)
  let ?w = "ucast (k - 1) :: 64 word"
  have w: "unat ?w = unat k - 1" by (simp add: unat_widen km1)
  have "unat ?w * unat (16 :: 64 word) < 2 ^ LENGTH(64)"
    using assms by (simp add: w)
  then have "unat (?w * 16) = unat ?w * unat (16 :: 64 word)"
    by (rule unat_mult_lem [THEN iffD1])
  then have prod: "unat (?w * 16) = (unat k - 1) * 16"
    by (simp add: w)
  have "unat (24 :: 64 word) + unat (?w * 16) < 2 ^ LENGTH(64)"
    using assms by (simp add: prod)
  then have "unat (24 + ?w * 16) = unat (24 :: 64 word) + unat (?w * 16)"
    by (rule unat_add_lem [THEN iffD1])
  then have total: "unat (24 + ?w * 16) = 24 + (unat k - 1) * 16"
    by (simp add: prod)
  have b3: "24 + (unat k - 1) * 16 < 2 ^ 32" using assms by simp
  have "unat (ucast (24 + ?w * 16) :: 32 word) = 24 + (unat k - 1) * 16"
    using b3 by (simp add: unat_narrow total)
  also have "\<dots> = 8 + 16 * unat k" using pos by simp
  finally show ?thesis by (simp add: sizeof_defs)
qed

lemma short_of_size:
  fixes n :: "32 word" and c :: "64 word"
  assumes "unat n < unat c"
  shows "\<not> c \<le> ucast n"
  using assms by (simp add: word_le_nat_alt unat_widen)

lemma fill_mBuffers_store:
  "i \<le> j \<Longrightarrow> j < i + r \<Longrightarrow> (8 + 16 * j, StoreUInt32 1) \<in> set (fill_mBuffers i r)"
proof (induction r arbitrary: i)
  case 0
  then show ?case by simp
next
  case (Suc r)
  show ?case
  proof (cases "j = i")
    case True
    then show ?thesis by simp
  next
    case False
    with Suc.prems have "Suc i \<le> j" "j < Suc i + r" by simp_all
    then have "(8 + 16 * j, StoreUInt32 1) \<in> set (fill_mBuffers (Suc i) r)"
      by (rule Suc.IH)
    then show ?thesis by simp
  qed
qed

lemma bufferSize_unat:
  fixes f c :: "32 word"
  shows "unat (ucast f * sizeof_float * ucast c :: 64 word) = (unat f * 4 * unat c) mod 2 ^ 64"
  by (simp add: unat_word_ariths unat_widen sizeof_defs mod_mult_left_eq)

section \<open>Reference counting\<close>

text \<open>
  C5, as the code has it. The count is a \<open>UInt32\<close>, so the property is stated for fewer
  than \<open>2 ^ 32\<close> calls of \<open>AddRef\<close>. From a live instance with count 1, \<open>N\<close> calls of
  \<open>AddRef\<close> succeed and leave the count at \<open>N + 1\<close>; after any \<open>k \<le> N\<close> calls of
  \<open>Release\<close> the instance is still live and nothing has been unregistered or freed; the
  call number \<open>N + 1\<close> clears \<open>gDriver\<close> and adds exactly one unregistration and one
  \<open>free\<close> to the effects. Whatever the state, a \<open>Release\<close> that returns a nonzero
  count leaves the instance live and unregisters and frees nothing.
\<close>

theorem refcount_balanced:
  assumes "gDriver s = Some d" and "refCount d = 1" and "N < 2 ^ 32"
  shows "let s1 = s\<lparr>gDriver := Some (d\<lparr>refCount := of_nat (Suc N)\<rparr>)\<rparr> in
         repeat_call N AddRef s = Inr s1
       \<and> (\<forall>k\<le>N. \<exists>s'. repeat_call k Release s1 = Inr s' \<and> gDriver s' \<noteq> None \<and> effects s' = effects s)
       \<and> repeat_call (Suc N) Release s1 =
           Inr (s\<lparr>gDriver := None, effects := effects s @ [RemoveInstanceForFactory (factoryID d), Free]\<rparr>)
       \<and> (\<forall>t r t'. Release t = Inr (r, t') \<longrightarrow> r \<noteq> 0 \<longrightarrow> gDriver t' \<noteq> None \<and> effects t' = effects t)"
proof -
  let ?d1 = "d\<lparr>refCount := of_nat (Suc N)\<rparr>"
  let ?s1 = "s\<lparr>gDriver := Some ?d1\<rparr>"
  have adds: "repeat_call N AddRef s = Inr ?s1"
    using repeat_AddRef [OF assms(1), of N] assms(2) by simp
  have g1: "gDriver ?s1 = Some ?d1" and r1: "refCount ?d1 = of_nat (Suc N)"
    by simp_all
  have alive: "\<exists>s'. repeat_call k Release ?s1 = Inr s' \<and> gDriver s' \<noteq> None \<and> effects s' = effects s"
    if "k \<le> N" for k
    using repeat_Release_alive [OF g1 r1 assms(3) that] by simp
  have final: "repeat_call (Suc N) Release ?s1 =
      Inr (s\<lparr>gDriver := None, effects := effects s @ [RemoveInstanceForFactory (factoryID d), Free]\<rparr>)"
    using repeat_Release_all [OF g1 r1 assms(3)] by simp
  from adds alive final Release_nonzero_alive show ?thesis
    unfolding Let_def by blast
qed

text \<open>
  The instance the factory creates, two calls of \<open>AddRef\<close>, three of \<open>Release\<close>: the
  registry sees one registration and one unregistration, and the block is freed once.
\<close>

theorem refcount_balanced_witness:
  "gDriver created_state = Some new_driver \<and> refCount new_driver = 1 \<and> (2::nat) < 2 ^ 32
   \<and> repeat_call 2 AddRef created_state = Inr (created_state\<lparr>gDriver := Some (new_driver\<lparr>refCount := 3\<rparr>)\<rparr>)
   \<and> repeat_call 3 Release (created_state\<lparr>gDriver := Some (new_driver\<lparr>refCount := 3\<rparr>)\<rparr>) =
       Inr \<lparr>gDriver = None,
            effects = [AddInstanceForFactory kAudioHALDriverFactoryUUID,
                       RemoveInstanceForFactory kAudioHALDriverFactoryUUID, Free]\<rparr>
   \<and> Release (created_state\<lparr>gDriver := Some (new_driver\<lparr>refCount := 3\<rparr>)\<rparr>) =
       Inr (2, created_state\<lparr>gDriver := Some (new_driver\<lparr>refCount := 2\<rparr>)\<rparr>)
   \<and> (2 :: ULONG) \<noteq> 0
   \<and> gDriver (created_state\<lparr>gDriver := Some (new_driver\<lparr>refCount := 2\<rparr>)\<rparr>) \<noteq> None
   \<and> effects (created_state\<lparr>gDriver := Some (new_driver\<lparr>refCount := 2\<rparr>)\<rparr>) = effects created_state"
proof -
  have h: "gDriver created_state = Some new_driver" "refCount new_driver = 1" "(2::nat) < 2 ^ 32"
    by (simp_all add: created_state_eq new_driver_def)
  have three: "Suc 2 = 3" by simp
  have rel: "Release (created_state\<lparr>gDriver := Some (new_driver\<lparr>refCount := 3\<rparr>)\<rparr>) =
       Inr (2, created_state\<lparr>gDriver := Some (new_driver\<lparr>refCount := 2\<rparr>)\<rparr>)"
    by (simp add: Release_def Let_def)
  show ?thesis
    using h rel refcount_balanced [OF h]
    by (simp add: Let_def three created_state_eq new_driver_def)
qed

text \<open>
  C5 as stated, for any \<open>N\<close>, fails at \<open>N = 2 ^ 32\<close>: the count wraps around, so after
  \<open>2 ^ 32\<close> calls of \<open>AddRef\<close> the state is the one the factory left, with count 1.
  The first of the \<open>N + 1\<close> calls of \<open>Release\<close> already returns 0, unregisters and
  frees the instance, and the following ones go through a dangling pointer.
\<close>

theorem refcount_wraps_counterexample:
  "gDriver created_state = Some new_driver \<and> refCount new_driver = 1
   \<and> repeat_call (2 ^ 32) AddRef created_state = Inr created_state
   \<and> Release created_state =
       Inr (0, \<lparr>gDriver = None,
                effects = [AddInstanceForFactory kAudioHALDriverFactoryUUID,
                           RemoveInstanceForFactory kAudioHALDriverFactoryUUID, Free]\<rparr>)
   \<and> repeat_call (Suc (2 ^ 32)) Release created_state = Inl DanglingDriver"
proof -
  have g: "gDriver created_state = Some new_driver" and r: "refCount new_driver = 1"
    by (simp_all add: created_state_eq new_driver_def)
  have "repeat_call (2 ^ 32) AddRef created_state =
      Inr (created_state\<lparr>gDriver := Some (new_driver\<lparr>refCount := refCount new_driver + of_nat (2 ^ 32)\<rparr>)\<rparr>)"
    by (rule repeat_AddRef [OF g])
  moreover have "(of_nat (2 ^ 32) :: 32 word) = 0" by simp
  ultimately have adds: "repeat_call (2 ^ 32) AddRef created_state = Inr created_state"
    by (simp add: created_state_eq)
  have rel: "Release created_state =
       Inr (0, \<lparr>gDriver = None,
                effects = [AddInstanceForFactory kAudioHALDriverFactoryUUID,
                           RemoveInstanceForFactory kAudioHALDriverFactoryUUID, Free]\<rparr>)"
    using Release_last [OF g r] by (simp add: created_state_eq new_driver_def)
  have dangling: "Release \<lparr>gDriver = None, effects = es\<rparr> = Inl DanglingDriver" for es
    by (simp add: Release_def)
  have "(2::nat) ^ 32 = Suc (2 ^ 32 - 1)" by simp
  then have "repeat_call (Suc (2 ^ 32)) Release created_state
      = repeat_call (Suc (Suc (2 ^ 32 - 1))) Release created_state"
    by simp
  also have "\<dots> = Inl DanglingDriver"
    by (simp only: repeat_call.simps rel dangling sum.case prod.case)
  finally show ?thesis using g r adds rel by simp
qed

section \<open>Initialization\<close>

text \<open>
  C6, as the code has it. \<open>Initialize\<close> keeps no record of having run: called on an
  instance that \<open>Initialize\<close> has already set up, it returns the success status, binds
  the host handle it is given now, and assigns the device object identifier 1 again.
\<close>

theorem Initialize_reruns:
  "Initialize (snd (Initialize driver inHost)) inHost' =
     (kAudioHardwareNoError, driver\<lparr>host := inHost', deviceObjectID := 1\<rparr>)"
  by (simp add: Initialize_def)

text \<open>
  C6 as stated fails: a second \<open>Initialize\<close> on the initialized instance, with another
  host handle, is not rejected; it returns success and the handle is bound anew.
\<close>

theorem Initialize_twice_counterexample:
  "host (initialized_driver 0x1000) = 0x1000
   \<and> deviceObjectID (initialized_driver 0x1000) = 1
   \<and> fst (Initialize (initialized_driver 0x1000) 0x2000) = kAudioHardwareNoError
   \<and> host (snd (Initialize (initialized_driver 0x1000) 0x2000)) = 0x2000"
  by (simp add: initialized_driver_def Initialize_def)

section \<open>The property table\<close>

text \<open>
  C7. The table is read-only: for every property address \<open>IsPropertySettable\<close> returns
  success and reports false; for every address, so for every selector,
  \<open>SetPropertyData\<close> returns the unsupported-operation status, which is not the success
  status, and both leave the driver instance as it was.
\<close>

theorem property_table_read_only:
  "fst (IsPropertySettable driver inObjectID inClientProcessID inAddress) = kAudioHardwareNoError
   \<and> fst (snd (IsPropertySettable driver inObjectID inClientProcessID inAddress)) = False
   \<and> snd (snd (IsPropertySettable driver inObjectID inClientProcessID inAddress)) = driver
   \<and> SetPropertyData driver inObjectID inClientProcessID inAddress inQualifierDataSize inQualifierData
        inDataSize inData = (kAudioHardwareUnsupportedOperationError, driver)
   \<and> kAudioHardwareUnsupportedOperationError \<noteq> kAudioHardwareNoError"
  by (simp add: IsPropertySettable_def SetPropertyData_def
      kAudioHardwareUnsupportedOperationError_def kAudioHardwareNoError_def)

text \<open>
  C8. No call of \<open>HasProperty\<close>, \<open>IsPropertySettable\<close>, \<open>GetPropertyDataSize\<close> or
  \<open>GetPropertyData\<close> changes the driver instance: the record after the call, with all
  its fields (interface reference, factory identity, reference count, host handle, device
  object identifier, both channel counts), is the record before it. The code keeps no
  device descriptor besides the channel counts of the instance.
\<close>

theorem property_queries_keep_driver:
  "snd (HasProperty driver inObjectID inClientProcessID inAddress) = driver
   \<and> snd (snd (IsPropertySettable driver inObjectID inClientProcessID inAddress)) = driver
   \<and> snd (snd (GetPropertyDataSize driver inObjectID inClientProcessID inAddress
          inQualifierDataSize inQualifierData)) = driver
   \<and> snd (GetPropertyData driver inObjectID inClientProcessID inAddress
          inQualifierDataSize inQualifierData inDataSize priorDataSize) = driver"
  by (simp add: HasProperty_def IsPropertySettable_def GetPropertyDataSize_def GetPropertyData_driver)

text \<open>
  C1, as the code has it. For a supported selector other than the stream configuration,
  at any scope, and for the stream configuration at a scope whose channel count is 16
  (the input or the output scope of an instance as the factory creates it),
  \<open>GetPropertyDataSize\<close> succeeds, and \<open>GetPropertyData\<close> called with exactly the
  size it returned succeeds and reports that same size.
\<close>

theorem size_then_data_agree:
  assumes sup: "fst (HasProperty driver oid pid addr)"
    and sc: "mSelector addr = kAudioDevicePropertyStreamConfiguration \<Longrightarrow> numChannels_of driver addr = 16"
  shows "fst (GetPropertyDataSize driver oid pid addr qs qd) = kAudioHardwareNoError
     \<and> status (fst (GetPropertyData driver oid pid addr qs qd
          (fst (snd (GetPropertyDataSize driver oid pid addr qs qd))) prior)) = kAudioHardwareNoError
     \<and> outDataSize (fst (GetPropertyData driver oid pid addr qs qd
          (fst (snd (GetPropertyDataSize driver oid pid addr qs qd))) prior))
        = fst (snd (GetPropertyDataSize driver oid pid addr qs qd))"
proof -
  let ?n = "fst (snd (GetPropertyDataSize driver oid pid addr qs qd))"
  have size: "outDataSize (fst (GetPropertyData driver oid pid addr qs qd ?n prior)) = ?n"
  proof (cases "mSelector addr = kAudioDevicePropertyStreamConfiguration")
    case True
    have n: "?n = 264"
      using True by (simp add: GetPropertyDataSize_value selector_defs)
    have "sizeof_AudioBufferList \<le> ucast (264 :: 32 word)"
      by (simp add: sizeof_defs)
    then have "outDataSize (fst (GetPropertyData driver oid pid addr qs qd 264 prior)) =
        ucast (sizeof_AudioBufferList + ucast (numChannels_of driver addr - 1) * sizeof_AudioBuffer)"
      by (rule stream_configuration_reported [OF True])
    also have "\<dots> = 264"
      by (simp add: sc [OF True] sizeof_defs)
    finally show ?thesis by (simp add: n)
  next
    case False
    with sup show ?thesis
      unfolding GetPropertyDataSize_value
      by (auto simp: HasProperty_def GetPropertyData_def Let_def selector_defs sizeof_defs
          split: if_splits)
  qed
  show ?thesis
    using size by (simp add: GetPropertyDataSize_status GetPropertyData_status)
qed

text \<open>The stream configuration of the input scope of a new instance: 264 bytes both times.\<close>

theorem size_then_data_agree_witness:
  "fst (HasProperty new_driver 1 0
      \<lparr>mSelector = kAudioDevicePropertyStreamConfiguration, mScope = kAudioObjectPropertyScopeInput, mElement = 0\<rparr>)
   \<and> numChannels_of new_driver
      \<lparr>mSelector = kAudioDevicePropertyStreamConfiguration, mScope = kAudioObjectPropertyScopeInput, mElement = 0\<rparr> = 16
   \<and> fst (snd (GetPropertyDataSize new_driver 1 0
      \<lparr>mSelector = kAudioDevicePropertyStreamConfiguration, mScope = kAudioObjectPropertyScopeInput, mElement = 0\<rparr> 0 0)) = 264
   \<and> status (fst (GetPropertyData new_driver 1 0
      \<lparr>mSelector = kAudioDevicePropertyStreamConfiguration, mScope = kAudioObjectPropertyScopeInput, mElement = 0\<rparr> 0 0 264 0))
       = kAudioHardwareNoError
   \<and> outDataSize (fst (GetPropertyData new_driver 1 0
      \<lparr>mSelector = kAudioDevicePropertyStreamConfiguration, mScope = kAudioObjectPropertyScopeInput, mElement = 0\<rparr> 0 0 264 0))
       = 264"
proof -
  let ?addr = "\<lparr>mSelector = kAudioDevicePropertyStreamConfiguration,
      mScope = kAudioObjectPropertyScopeInput, mElement = 0\<rparr>"
  have sup: "fst (HasProperty new_driver 1 0 ?addr)"
    by (simp add: HasProperty_def)
  have ch: "numChannels_of new_driver ?addr = 16"
    by (simp add: numChannels_of_def new_driver_def)
  have n: "fst (snd (GetPropertyDataSize new_driver 1 0 ?addr 0 0)) = 264"
    by (simp add: GetPropertyDataSize_value selector_defs)
  show ?thesis
    using sup ch n size_then_data_agree [OF sup ch, of 0 0 0]
    by simp
qed

text \<open>
  C1 as stated fails for the stream configuration at the global scope, which
  \<open>HasProperty\<close> reports as supported like any other scope: on the initialized
  instance \<open>GetPropertyDataSize\<close> returns 264, and \<open>GetPropertyData\<close> with a buffer
  of 264 bytes reports 8 bytes, the list header with no buffers.
\<close>

theorem size_then_data_global_scope_counterexample:
  "fst (HasProperty (initialized_driver 0x1000) 1 0
      \<lparr>mSelector = kAudioDevicePropertyStreamConfiguration, mScope = kAudioObjectPropertyScopeGlobal, mElement = 0\<rparr>)
   \<and> GetPropertyDataSize (initialized_driver 0x1000) 1 0
      \<lparr>mSelector = kAudioDevicePropertyStreamConfiguration, mScope = kAudioObjectPropertyScopeGlobal, mElement = 0\<rparr> 0 0
       = (kAudioHardwareNoError, 264, initialized_driver 0x1000)
   \<and> outDataSize (fst (GetPropertyData (initialized_driver 0x1000) 1 0
      \<lparr>mSelector = kAudioDevicePropertyStreamConfiguration, mScope = kAudioObjectPropertyScopeGlobal, mElement = 0\<rparr> 0 0 264 0))
       = 8
   \<and> (8 :: UInt32) \<noteq> 264"
  by (simp add: HasProperty_def GetPropertyDataSize_def GetPropertyData_def Let_def numChannels_of_def
      selector_defs scope_defs sizeof_defs kAudioHardwareNoError_def widen_minus_one initialized_driver_def
      Initialize_def new_driver_def)

text \<open>
  C3, as the code has it. For the stream configuration \<open>GetPropertyDataSize\<close> returns
  the constant \<open>sizeof(AudioBufferList) + 15 * sizeof(AudioBuffer)\<close>, whatever the
  scope and the channel counts. \<open>GetPropertyData\<close>, given a capacity of at least
  \<open>sizeof(AudioBufferList)\<close>, reports for a scope with \<open>k < 2 ^ 28\<close> channels the size
  \<open>s\<close> with \<open>s + sizeof(AudioBuffer) = sizeof(AudioBufferList) + k * sizeof(AudioBuffer)\<close>:
  that is \<open>sizeof(AudioBufferList) + (k - 1) * sizeof(AudioBuffer)\<close> for \<open>k \<ge> 1\<close> and
  the size of the header alone for \<open>k = 0\<close>. The two sizes agree exactly when \<open>k = 16\<close>.
\<close>

theorem stream_configuration_sizes:
  assumes sel: "mSelector addr = kAudioDevicePropertyStreamConfiguration"
    and cap: "sizeof_AudioBufferList \<le> ucast inDataSize"
    and k: "unat (numChannels_of driver addr) < 2 ^ 28"
  shows "unat (fst (snd (GetPropertyDataSize driver oid pid addr qs qd)))
       = unat sizeof_AudioBufferList + 15 * unat sizeof_AudioBuffer
     \<and> unat (outDataSize (fst (GetPropertyData driver oid pid addr qs qd inDataSize prior)))
          + unat sizeof_AudioBuffer
       = unat sizeof_AudioBufferList + unat (numChannels_of driver addr) * unat sizeof_AudioBuffer
     \<and> ((outDataSize (fst (GetPropertyData driver oid pid addr qs qd inDataSize prior))
          = fst (snd (GetPropertyDataSize driver oid pid addr qs qd)))
        = (numChannels_of driver addr = 16))"
proof -
  let ?k = "numChannels_of driver addr"
  let ?out = "outDataSize (fst (GetPropertyData driver oid pid addr qs qd inDataSize prior))"
  let ?size = "fst (snd (GetPropertyDataSize driver oid pid addr qs qd))"
  have size: "?size = 264"
    using sel by (simp add: GetPropertyDataSize_value selector_defs)
  have "?out = ucast (sizeof_AudioBufferList + ucast (?k - 1) * sizeof_AudioBuffer)"
    using sel cap by (rule stream_configuration_reported)
  then have out: "unat ?out = 8 + 16 * unat ?k"
    using reported_size_unat [OF k] by simp
  have "(?out = ?size) = (unat ?out = unat ?size)"
    by (simp add: word_unat_eq_iff)
  also have "\<dots> = (unat ?k = 16)"
    by (auto simp: out size)
  also have "\<dots> = (?k = 16)"
    by (simp add: word_unat_eq_iff)
  finally have iff: "(?out = ?size) = (?k = 16)" .
  show ?thesis
    using iff by (simp add: out size sizeof_defs)
qed

text \<open>The output scope of a new instance, with room for the one-buffer list only.\<close>

theorem stream_configuration_sizes_witness:
  "mSelector \<lparr>mSelector = kAudioDevicePropertyStreamConfiguration,
       mScope = kAudioObjectPropertyScopeOutput, mElement = 0\<rparr> = kAudioDevicePropertyStreamConfiguration
   \<and> sizeof_AudioBufferList \<le> ucast (24 :: UInt32)
   \<and> numChannels_of new_driver \<lparr>mSelector = kAudioDevicePropertyStreamConfiguration,
       mScope = kAudioObjectPropertyScopeOutput, mElement = 0\<rparr> = 16
   \<and> unat (fst (snd (GetPropertyDataSize new_driver 1 0 \<lparr>mSelector = kAudioDevicePropertyStreamConfiguration,
       mScope = kAudioObjectPropertyScopeOutput, mElement = 0\<rparr> 0 0))) = 264
   \<and> unat (outDataSize (fst (GetPropertyData new_driver 1 0 \<lparr>mSelector = kAudioDevicePropertyStreamConfiguration,
       mScope = kAudioObjectPropertyScopeOutput, mElement = 0\<rparr> 0 0 24 0))) = 264"
proof -
  let ?addr = "\<lparr>mSelector = kAudioDevicePropertyStreamConfiguration,
       mScope = kAudioObjectPropertyScopeOutput, mElement = 0\<rparr>"
  have sel: "mSelector ?addr = kAudioDevicePropertyStreamConfiguration" by simp
  have cap: "sizeof_AudioBufferList \<le> ucast (24 :: UInt32)" by (simp add: sizeof_defs)
  have ch: "numChannels_of new_driver ?addr = 16"
    by (simp add: numChannels_of_def new_driver_def scope_defs)
  have k: "unat (numChannels_of new_driver ?addr) < 2 ^ 28" by (simp add: ch)
  show ?thesis
    using cap ch stream_configuration_sizes [OF sel cap k, of 1 0 0 0 0]
    by (simp add: sizeof_defs)
qed

text \<open>
  C3 as stated fails: with two input channels \<open>GetPropertyDataSize\<close> still returns
  264, not the 40 bytes of \<open>sizeof(AudioBufferList) + (2 - 1) * sizeof(AudioBuffer)\<close>
  that \<open>GetPropertyData\<close> reports; and for the global scope of a new instance, which
  has no channels, it returns 264 as well, not the size of the header.
\<close>

theorem stream_configuration_size_constant_counterexample:
  "numChannels_of (new_driver\<lparr>inputChannels := 2\<rparr>)
      \<lparr>mSelector = kAudioDevicePropertyStreamConfiguration, mScope = kAudioObjectPropertyScopeInput, mElement = 0\<rparr> = 2
   \<and> fst (snd (GetPropertyDataSize (new_driver\<lparr>inputChannels := 2\<rparr>) 1 0
      \<lparr>mSelector = kAudioDevicePropertyStreamConfiguration, mScope = kAudioObjectPropertyScopeInput, mElement = 0\<rparr> 0 0)) = 264
   \<and> outDataSize (fst (GetPropertyData (new_driver\<lparr>inputChannels := 2\<rparr>) 1 0
      \<lparr>mSelector = kAudioDevicePropertyStreamConfiguration, mScope = kAudioObjectPropertyScopeInput, mElement = 0\<rparr> 0 0 264 0)) = 40
   \<and> sizeof_AudioBufferList + (2 - 1) * sizeof_AudioBuffer = 40
   \<and> numChannels_of new_driver
      \<lparr>mSelector = kAudioDevicePropertyStreamConfiguration, mScope = kAudioObjectPropertyScopeGlobal, mElement = 0\<rparr> = 0
   \<and> fst (snd (GetPropertyDataSize new_driver 1 0
      \<lparr>mSelector = kAudioDevicePropertyStreamConfiguration, mScope = kAudioObjectPropertyScopeGlobal, mElement = 0\<rparr> 0 0)) = 264
   \<and> sizeof_AudioBufferList = 24"
  by (simp add: GetPropertyDataSize_def GetPropertyData_def Let_def numChannels_of_def
      selector_defs scope_defs sizeof_defs new_driver_def)

text \<open>
  C4, as the code has it. If the capacity \<open>inDataSize\<close> is smaller than the size
  \<open>GetPropertyDataSize\<close> returns for the property and, for the stream configuration,
  smaller than \<open>sizeof(AudioBufferList)\<close>, then \<open>GetPropertyData\<close> stores nothing
  through \<open>outData\<close>, leaves \<open>*outDataSize\<close> as it was and returns the success
  status. (The sizes of the unsupported selectors and of the stream list are 0, so no
  capacity is smaller.)
\<close>

theorem short_buffer_untouched:
  assumes small: "inDataSize < fst (snd (GetPropertyDataSize driver oid pid addr qs qd))"
    and sc: "mSelector addr = kAudioDevicePropertyStreamConfiguration
          \<Longrightarrow> ucast inDataSize < sizeof_AudioBufferList"
  shows "GetPropertyData driver oid pid addr qs qd inDataSize priorDataSize =
     (\<lparr>status = kAudioHardwareNoError, outDataSize = priorDataSize, outData = []\<rparr>, driver)"
proof (cases "mSelector addr = kAudioDevicePropertyStreamConfiguration")
  case True
  from sc [OF True] have "\<not> sizeof_AudioBufferList \<le> ucast inDataSize" by simp
  then show ?thesis
    using True by (simp add: GetPropertyData_def Let_def selector_defs)
next
  case False
  let ?sel = "mSelector addr"
  have u: "unat inDataSize < unat (fst (snd (GetPropertyDataSize driver oid pid addr qs qd)))"
    using small by (simp add: word_less_nat_alt)
  then consider
      (string) "?sel = kAudioObjectPropertyName \<or> ?sel = kAudioObjectPropertyManufacturer
          \<or> ?sel = kAudioDevicePropertyDeviceUID" "unat inDataSize < 8"
    | (rate) "?sel = kAudioDevicePropertyNominalSampleRate" "unat inDataSize < 8"
    | (rates) "?sel = kAudioDevicePropertyAvailableNominalSampleRates" "unat inDataSize < 48"
    using False unfolding GetPropertyDataSize_value by (auto split: if_splits)
  then show ?thesis
  proof cases
    case string
    from string(2) have "\<not> sizeof_CFStringRef \<le> ucast inDataSize"
      by (intro short_of_size) (simp add: sizeof_defs)
    then show ?thesis
      using string(1) by (auto simp: GetPropertyData_def Let_def)
  next
    case rate
    from rate(2) have "\<not> sizeof_Float64 \<le> ucast inDataSize"
      by (intro short_of_size) (simp add: sizeof_defs)
    then show ?thesis
      using rate(1) by (simp add: GetPropertyData_def Let_def selector_defs)
  next
    case rates
    from rates(2) have "\<not> sizeof_AudioValueRange * 3 \<le> ucast inDataSize"
      by (intro short_of_size) (simp add: sizeof_defs)
    then show ?thesis
      using rates(1) by (simp add: GetPropertyData_def Let_def selector_defs)
  qed
qed

text \<open>
  The stream configuration with a capacity of 23 bytes, less than the list with one
  buffer: nothing stored, the old size left in place.
\<close>

theorem short_buffer_untouched_witness:
  "(23 :: UInt32) < fst (snd (GetPropertyDataSize new_driver 1 0
      \<lparr>mSelector = kAudioDevicePropertyStreamConfiguration, mScope = kAudioObjectPropertyScopeInput, mElement = 0\<rparr> 0 0))
   \<and> ucast (23 :: UInt32) < sizeof_AudioBufferList
   \<and> GetPropertyData new_driver 1 0
      \<lparr>mSelector = kAudioDevicePropertyStreamConfiguration, mScope = kAudioObjectPropertyScopeInput, mElement = 0\<rparr> 0 0 23 0xDEAD
      = (\<lparr>status = kAudioHardwareNoError, outDataSize = 0xDEAD, outData = []\<rparr>, new_driver)"
proof -
  let ?addr = "\<lparr>mSelector = kAudioDevicePropertyStreamConfiguration,
      mScope = kAudioObjectPropertyScopeInput, mElement = 0\<rparr>"
  have small: "(23 :: UInt32) < fst (snd (GetPropertyDataSize new_driver 1 0 ?addr 0 0))"
    by (simp add: GetPropertyDataSize_value selector_defs)
  have sc: "ucast (23 :: UInt32) < sizeof_AudioBufferList"
    by (simp add: sizeof_defs)
  show ?thesis
    using small sc short_buffer_untouched [where priorDataSize = "0xDEAD", OF small sc] by simp
qed

text \<open>
  C4 as stated fails. With capacity 0 for the name, 8 bytes short, the status returned
  is the success status. And for the stream configuration of the input scope with
  capacity 24, short of the 264 bytes required, the call stores sixteen buffer entries:
  the store at byte offset 248 is one of them.
\<close>

theorem short_buffer_counterexample:
  "(0 :: UInt32) < fst (snd (GetPropertyDataSize (initialized_driver 0x1000) 1 0
      \<lparr>mSelector = kAudioObjectPropertyName, mScope = kAudioObjectPropertyScopeGlobal, mElement = 0\<rparr> 0 0))
   \<and> status (fst (GetPropertyData (initialized_driver 0x1000) 1 0
      \<lparr>mSelector = kAudioObjectPropertyName, mScope = kAudioObjectPropertyScopeGlobal, mElement = 0\<rparr> 0 0 0 0))
      = kAudioHardwareNoError
   \<and> (24 :: UInt32) < fst (snd (GetPropertyDataSize (initialized_driver 0x1000) 1 0
      \<lparr>mSelector = kAudioDevicePropertyStreamConfiguration, mScope = kAudioObjectPropertyScopeInput, mElement = 0\<rparr> 0 0))
   \<and> (248, StoreUInt32 1) \<in> set (outData (fst (GetPropertyData (initialized_driver 0x1000) 1 0
      \<lparr>mSelector = kAudioDevicePropertyStreamConfiguration, mScope = kAudioObjectPropertyScopeInput, mElement = 0\<rparr> 0 0 24 0)))"
proof -
  have "(8 + 16 * 15, StoreUInt32 1) \<in> set (fill_mBuffers 0 16)"
    by (rule fill_mBuffers_store) simp_all
  then have "(248, StoreUInt32 1) \<in> set (fill_mBuffers 0 16)" by simp
  then show ?thesis
    by (simp add: GetPropertyDataSize_value GetPropertyData_status GetPropertyData_def Let_def
        numChannels_of_def selector_defs scope_defs sizeof_defs initialized_driver_def
        Initialize_def new_driver_def)
qed

section \<open>Object identifiers\<close>

text \<open>
  C2, as the code has it. No entry point compares the object identifier it is given with
  the device object identifier of the instance. Whatever the identifier, known or not:
  the device lifecycle and IO entry points return the success status, \<open>SetPropertyData\<close>
  returns the unsupported-operation status, the property queries and \<open>DoIOOperation\<close>
  return exactly what they return for the known identifier, with the success status; no
  status is the unknown-object status, and the driver instance is left as it was.
\<close>

theorem object_identifier_not_checked:
  "DestroyDevice driver oid = (kAudioHardwareNoError, driver)
   \<and> AddDeviceClient driver oid inClientInfo = (kAudioHardwareNoError, driver)
   \<and> RemoveDeviceClient driver oid inClientInfo = (kAudioHardwareNoError, driver)
   \<and> PerformDeviceConfigurationChange driver oid inChangeAction inChangeInfo = (kAudioHardwareNoError, driver)
   \<and> AbortDeviceConfigurationChange driver oid inChangeAction inChangeInfo = (kAudioHardwareNoError, driver)
   \<and> HasProperty driver oid pid addr = HasProperty driver (deviceObjectID driver) pid addr
   \<and> snd (HasProperty driver oid pid addr) = driver
   \<and> IsPropertySettable driver oid pid addr = (kAudioHardwareNoError, False, driver)
   \<and> GetPropertyDataSize driver oid pid addr qs qd = GetPropertyDataSize driver (deviceObjectID driver) pid addr qs qd
   \<and> fst (GetPropertyDataSize driver oid pid addr qs qd) = kAudioHardwareNoError
   \<and> snd (snd (GetPropertyDataSize driver oid pid addr qs qd)) = driver
   \<and> GetPropertyData driver oid pid addr qs qd inDataSize prior
        = GetPropertyData driver (deviceObjectID driver) pid addr qs qd inDataSize prior
   \<and> status (fst (GetPropertyData driver oid pid addr qs qd inDataSize prior)) = kAudioHardwareNoError
   \<and> snd (GetPropertyData driver oid pid addr qs qd inDataSize prior) = driver
   \<and> SetPropertyData driver oid pid addr qs qd inDataSize inData = (kAudioHardwareUnsupportedOperationError, driver)
   \<and> StartIO driver oid inClientID = (kAudioHardwareNoError, driver)
   \<and> StopIO driver oid inClientID = (kAudioHardwareNoError, driver)
   \<and> GetZeroTimeStamp driver oid inClientID = (kAudioHardwareNoError, (0, 0, 0), driver)
   \<and> WillDoIOOperation driver oid inClientID inOperationID = (kAudioHardwareNoError, (False, False), driver)
   \<and> BeginIOOperation driver oid inClientID inOperationID inIOBufferFrameSize inIOCycleInfo
        = (kAudioHardwareNoError, driver)
   \<and> DoIOOperation driver oid streamID inClientID inOperationID inIOBufferFrameSize inIOCycleInfo
          ioMainBuffer ioSecondaryBuffer mem
        = DoIOOperation driver (deviceObjectID driver) streamID' inClientID inOperationID inIOBufferFrameSize
          inIOCycleInfo ioMainBuffer ioSecondaryBuffer mem
   \<and> fst (DoIOOperation driver oid streamID inClientID inOperationID inIOBufferFrameSize inIOCycleInfo
          ioMainBuffer ioSecondaryBuffer mem) = kAudioHardwareNoError
   \<and> snd (snd (DoIOOperation driver oid streamID inClientID inOperationID inIOBufferFrameSize inIOCycleInfo
          ioMainBuffer ioSecondaryBuffer mem)) = driver
   \<and> EndIOOperation driver oid inClientID inOperationID inIOBufferFrameSize inIOCycleInfo
        = (kAudioHardwareNoError, driver)
   \<and> kAudioHardwareNoError \<noteq> kAudioHardwareBadObjectError
   \<and> kAudioHardwareUnsupportedOperationError \<noteq> kAudioHardwareBadObjectError"
proof -
  have gpd: "GetPropertyData driver oid pid addr qs qd inDataSize prior
        = GetPropertyData driver (deviceObjectID driver) pid addr qs qd inDataSize prior"
    by (simp add: GetPropertyData_def)
  have dio: "DoIOOperation driver oid streamID inClientID inOperationID inIOBufferFrameSize inIOCycleInfo
          ioMainBuffer ioSecondaryBuffer mem
        = DoIOOperation driver (deviceObjectID driver) streamID' inClientID inOperationID inIOBufferFrameSize
          inIOCycleInfo ioMainBuffer ioSecondaryBuffer mem"
    by (simp add: DoIOOperation_def)
  have dio_status: "fst (DoIOOperation driver oid streamID inClientID inOperationID inIOBufferFrameSize
        inIOCycleInfo ioMainBuffer ioSecondaryBuffer mem) = kAudioHardwareNoError"
    and dio_driver: "snd (snd (DoIOOperation driver oid streamID inClientID inOperationID inIOBufferFrameSize
        inIOCycleInfo ioMainBuffer ioSecondaryBuffer mem)) = driver"
    by (simp_all add: DoIOOperation_def Let_def)
  have codes: "kAudioHardwareNoError \<noteq> kAudioHardwareBadObjectError"
      "kAudioHardwareUnsupportedOperationError \<noteq> kAudioHardwareBadObjectError"
    by (simp_all add: kAudioHardwareNoError_def kAudioHardwareBadObjectError_def
        kAudioHardwareUnsupportedOperationError_def)
  have simple: "DestroyDevice driver oid = (kAudioHardwareNoError, driver)"
    "AddDeviceClient driver oid inClientInfo = (kAudioHardwareNoError, driver)"
    "RemoveDeviceClient driver oid inClientInfo = (kAudioHardwareNoError, driver)"
    "PerformDeviceConfigurationChange driver oid inChangeAction inChangeInfo = (kAudioHardwareNoError, driver)"
    "AbortDeviceConfigurationChange driver oid inChangeAction inChangeInfo = (kAudioHardwareNoError, driver)"
    "IsPropertySettable driver oid pid addr = (kAudioHardwareNoError, False, driver)"
    "SetPropertyData driver oid pid addr qs qd inDataSize inData = (kAudioHardwareUnsupportedOperationError, driver)"
    "StartIO driver oid inClientID = (kAudioHardwareNoError, driver)"
    "StopIO driver oid inClientID = (kAudioHardwareNoError, driver)"
    "GetZeroTimeStamp driver oid inClientID = (kAudioHardwareNoError, (0, 0, 0), driver)"
    "WillDoIOOperation driver oid inClientID inOperationID = (kAudioHardwareNoError, (False, False), driver)"
    "BeginIOOperation driver oid inClientID inOperationID inIOBufferFrameSize inIOCycleInfo
        = (kAudioHardwareNoError, driver)"
    "EndIOOperation driver oid inClientID inOperationID inIOBufferFrameSize inIOCycleInfo
        = (kAudioHardwareNoError, driver)"
    by (simp_all add: DestroyDevice_def AddDeviceClient_def RemoveDeviceClient_def
        PerformDeviceConfigurationChange_def AbortDeviceConfigurationChange_def IsPropertySettable_def
        SetPropertyData_def StartIO_def StopIO_def GetZeroTimeStamp_def WillDoIOOperation_def
        BeginIOOperation_def EndIOOperation_def)
  have props: "HasProperty driver oid pid addr = HasProperty driver (deviceObjectID driver) pid addr"
    "snd (HasProperty driver oid pid addr) = driver"
    "GetPropertyDataSize driver oid pid addr qs qd = GetPropertyDataSize driver (deviceObjectID driver) pid addr qs qd"
    "snd (snd (GetPropertyDataSize driver oid pid addr qs qd)) = driver"
    by (simp_all add: HasProperty_def GetPropertyDataSize_def)
  show ?thesis
    by (intro conjI simple props gpd dio dio_status dio_driver codes
        GetPropertyDataSize_status GetPropertyData_status GetPropertyData_driver)
qed

text \<open>
  C2 as stated fails: on the initialized instance, whose device has the identifier 1,
  \<open>StartIO\<close> for the object 99 returns success, and \<open>GetPropertyData\<close> for the object
  99 stores the device name and returns success.
\<close>

theorem unknown_object_accepted_counterexample:
  "deviceObjectID (initialized_driver 0x1000) = 1
   \<and> (99 :: AudioObjectID) \<noteq> 1
   \<and> StartIO (initialized_driver 0x1000) 99 0 = (kAudioHardwareNoError, initialized_driver 0x1000)
   \<and> GetPropertyData (initialized_driver 0x1000) 99 0
        \<lparr>mSelector = kAudioObjectPropertyName, mScope = kAudioObjectPropertyScopeGlobal, mElement = 0\<rparr> 0 0 8 0
      = (\<lparr>status = kAudioHardwareNoError, outDataSize = 8, outData = [(0, StoreCFString ''SotF'')]\<rparr>,
         initialized_driver 0x1000)
   \<and> kAudioHardwareNoError \<noteq> kAudioHardwareBadObjectError"
  by (simp add: StartIO_def GetPropertyData_def Let_def initialized_driver_def Initialize_def
      sizeof_defs kAudioHardwareNoError_def kAudioHardwareBadObjectError_def)

section \<open>The IO cycle\<close>

text \<open>
  C9, as the code has it. With a main buffer that is not null, for every frame count
  \<open>f\<close> and output channel count \<open>c\<close> of the instance, \<open>DoIOOperation\<close> returns
  success and the memory after the call holds 0 at every address of the first
  \<open>f * sizeof(float) * c\<close> bytes of the main buffer (the product taken modulo \<open>2 ^ 64\<close>,
  as \<open>size_t\<close> has it) and the old byte at every other address, so a secondary buffer
  outside that extent is unchanged; the instance is unchanged. After \<open>StartIO\<close> on a
  freshly initialized instance \<open>c\<close> is 16.
\<close>

theorem DoIOOperation_zero_fill:
  assumes "ioMainBuffer \<noteq> 0"
  shows "DoIOOperation driver inDeviceObjectID inStreamObjectID inClientID inOperationID
           inIOBufferFrameSize inIOCycleInfo ioMainBuffer ioSecondaryBuffer mem =
         (kAudioHardwareNoError,
          (\<lambda>a. if in_extent ioMainBuffer
                    ((unat inIOBufferFrameSize * 4 * unat (outputChannels driver)) mod 2 ^ 64) a
               then 0 else mem a),
          driver)
       \<and> (\<forall>a. \<not> in_extent ioMainBuffer
                    ((unat inIOBufferFrameSize * 4 * unat (outputChannels driver)) mod 2 ^ 64) a
              \<longrightarrow> fst (snd (DoIOOperation driver inDeviceObjectID inStreamObjectID inClientID inOperationID
                    inIOBufferFrameSize inIOCycleInfo ioMainBuffer ioSecondaryBuffer mem)) a = mem a)
       \<and> outputChannels (snd (StartIO (initialized_driver inHost) inDeviceObjectID inClientID)) = 16"
proof -
  have "memset mem ioMainBuffer 0
          (unat (ucast inIOBufferFrameSize * sizeof_float * ucast (outputChannels driver) :: 64 word))
      = (\<lambda>a. if in_extent ioMainBuffer
                    ((unat inIOBufferFrameSize * 4 * unat (outputChannels driver)) mod 2 ^ 64) a
               then 0 else mem a)"
    by (rule ext) (simp only: memset_apply bufferSize_unat)
  then show ?thesis
    using assms
    by (simp add: DoIOOperation_def Let_def StartIO_def initialized_driver_def Initialize_def new_driver_def)
qed

text \<open>
  A freshly initialized instance and 512 frames: \<open>512 * 4 * 16 = 32768\<close> bytes are
  cleared, and a secondary buffer 65536 bytes further on keeps its content.
\<close>

theorem DoIOOperation_zero_fill_witness:
  "(0x10000 :: pointer) \<noteq> 0
   \<and> DoIOOperation (initialized_driver 0x1000) 1 2 0 0 512 0 0x10000 0 (\<lambda>a. 0xFF) =
       (kAudioHardwareNoError, (\<lambda>a. if in_extent 0x10000 32768 a then 0 else 0xFF), initialized_driver 0x1000)
   \<and> \<not> in_extent 0x10000 32768 0x20000
   \<and> fst (snd (DoIOOperation (initialized_driver 0x1000) 1 2 0 0 512 0 0x10000 0x20000 (\<lambda>a. 0xFF))) 0x20000 = 0xFF"
proof -
  have nz: "(0x10000 :: pointer) \<noteq> 0" by simp
  have ch: "outputChannels (initialized_driver 0x1000) = 16"
    by (simp add: initialized_driver_def Initialize_def new_driver_def)
  have out: "\<not> in_extent 0x10000 32768 0x20000"
    by (simp add: in_extent_def)
  show ?thesis
    using nz out
      DoIOOperation_zero_fill [OF nz, of "initialized_driver 0x1000" 1 2 0 0 512 0 0 "\<lambda>a. 0xFF"]
      DoIOOperation_zero_fill [OF nz, of "initialized_driver 0x1000" 1 2 0 0 512 0 "0x20000" "\<lambda>a. 0xFF"]
    by (simp add: ch)
qed

text \<open>
  C9 as stated fails. After \<open>StartIO\<close> on a freshly initialized instance the channel
  count is 16, not 2, and with 512 frames the byte at offset 4096 of the main buffer,
  the first one beyond \<open>512 * 2 * 4\<close> bytes, is cleared. And for \<open>f = c = 2 ^ 31\<close> the
  size wraps around to 0, and not even the first byte of the main buffer is cleared.
\<close>

theorem DoIOOperation_extent_counterexample:
  "outputChannels (snd (StartIO (initialized_driver 0x1000) 1 0)) = 16
   \<and> \<not> in_extent 0x10000 (512 * 2 * 4) (0x10000 + 4096)
   \<and> fst (snd (DoIOOperation (snd (StartIO (initialized_driver 0x1000) 1 0)) 1 2 0 0 512 0 0x10000 0 (\<lambda>a. 0xFF)))
        (0x10000 + 4096) = 0
   \<and> fst (snd (DoIOOperation (new_driver\<lparr>outputChannels := 0x80000000\<rparr>) 1 2 0 0 0x80000000 0 0x10000 0 (\<lambda>a. 0xFF)))
        0x10000 = 0xFF"
  by (simp add: DoIOOperation_def Let_def memset_apply in_extent_def StartIO_def initialized_driver_def
      Initialize_def new_driver_def sizeof_defs)

text \<open>
  C10. For every operation identifier (and every device and client) \<open>WillDoIOOperation\<close>
  returns success and sets both flags to false: the driver takes part in no kind of IO
  operation and never works in place.
\<close>

theorem WillDoIOOperation_declines:
  "WillDoIOOperation driver inDeviceObjectID inClientID inOperationID =
     (kAudioHardwareNoError, (False, False), driver)"
  by (simp add: WillDoIOOperation_def)

end
